theory Spec2Isabelle
  imports Complex_Main
begin

section \<open>Python values and text\<close>

text \<open>
  Python's unbounded integers are \<open>int\<close>, its strings are \<open>string\<close> (ASCII text), and
  the exceptions that the bot's code can raise are values of \<open>exn\<close>. A function that can
  raise returns \<open>exn + 'a\<close>, with \<open>Inl\<close> for the exception.
\<close>

datatype exn = ValueError string | IndexError string | ZeroDivisionError string | OSError string

fun exn_str :: "exn \<Rightarrow> string" where
  "exn_str (ValueError m) = m"
| "exn_str (IndexError m) = m"
| "exn_str (ZeroDivisionError m) = m"
| "exn_str (OSError m) = m"

definition is_digit :: "char \<Rightarrow> bool" where
  "is_digit c = (48 \<le> (of_char c :: nat) \<and> (of_char c :: nat) \<le> 57)"

definition digit_val :: "char \<Rightarrow> nat" where
  "digit_val c = of_char c - 48"

definition digit_char :: "nat \<Rightarrow> char" where
  "digit_char n = char_of (48 + n)"

text \<open>\<open>str(n)\<close> for an integer, as an f-string prints it: decimal, \<open>-\<close> for a negative.\<close>

fun str_nat :: "nat \<Rightarrow> string" where
  "str_nat n = (if n < 10 then [digit_char n] else str_nat (n div 10) @ [digit_char (n mod 10)])"

declare str_nat.simps [simp del]

definition str_int :: "int \<Rightarrow> string" where
  "str_int i = (if i < 0 then CHR ''-'' # str_nat (nat (- i)) else str_nat (nat i))"

definition str_bool :: "bool \<Rightarrow> string" where
  "str_bool b = (if b then ''True'' else ''False'')"

text \<open>\<open>str\<close> of a list of integers is its \<open>repr\<close>: \<open>[80, 443]\<close>.\<close>

fun join :: "string \<Rightarrow> string list \<Rightarrow> string" where
  "join sep [] = []"
| "join sep [x] = x"
| "join sep (x # y # ys) = x @ sep @ join sep (y # ys)"

definition str_int_list :: "int list \<Rightarrow> string" where
  "str_int_list xs = ''['' @ join '', '' (map str_int xs) @ '']''"

text \<open>
  \<open>int(s)\<close> on a string, base 10: surrounding whitespace is stripped, one sign is
  allowed, then at least one digit, with single underscores allowed between digits.
  Anything else raises \<open>ValueError\<close>, here \<open>None\<close>. The whitespace characters are those
  of the interpreter's ASCII table: 0x09 to 0x0D, 0x1C to 0x1F and the blank.
\<close>

definition py_isspace :: "char \<Rightarrow> bool" where
  "py_isspace c = (c \<in> set [CHR 0x09, CHR 0x0A, CHR 0x0B, CHR 0x0C, CHR 0x0D,
                             CHR 0x1C, CHR 0x1D, CHR 0x1E, CHR 0x1F, CHR 0x20])"

definition py_strip :: "string \<Rightarrow> string" where
  "py_strip s = rev (dropWhile py_isspace (rev (dropWhile py_isspace s)))"

fun digits_value :: "nat \<Rightarrow> string \<Rightarrow> nat option" where
  "digits_value acc [] = Some acc"
| "digits_value acc (c # cs) =
     (if is_digit c then digits_value (acc * 10 + digit_val c) cs
      else if c = CHR ''_'' then
        (case cs of
           [] \<Rightarrow> None
         | d # ds \<Rightarrow> if is_digit d then digits_value (acc * 10 + digit_val d) ds else None)
      else None)"

definition unsigned_int :: "string \<Rightarrow> nat option" where
  "unsigned_int u =
     (case u of
        [] \<Rightarrow> None
      | c # cs \<Rightarrow> if is_digit c then digits_value (digit_val c) cs else None)"

definition py_int :: "string \<Rightarrow> int option" where
  "py_int s =
     (case py_strip s of
        [] \<Rightarrow> None
      | c # cs \<Rightarrow>
          if c = CHR ''-'' then map_option (\<lambda>n. - int n) (unsigned_int cs)
          else if c = CHR ''+'' then map_option int (unsigned_int cs)
          else map_option int (unsigned_int (c # cs)))"

text \<open>\<open>s.lower()\<close>, \<open>needle in s\<close> and \<open>s.split(',')\<close> on ASCII text.\<close>

definition lower_char :: "char \<Rightarrow> char" where
  "lower_char c =
     (if 65 \<le> (of_char c :: nat) \<and> (of_char c :: nat) \<le> 90 then char_of ((of_char c :: nat) + 32) else c)"

definition py_lower :: "string \<Rightarrow> string" where
  "py_lower s = map lower_char s"

fun contains :: "string \<Rightarrow> string \<Rightarrow> bool" where
  "contains needle [] = (needle = [])"
| "contains needle (c # cs) = (take (length needle) (c # cs) = needle \<or> contains needle cs)"

fun split_on :: "char \<Rightarrow> string \<Rightarrow> string list" where
  "split_on sep [] = [[]]"
| "split_on sep (c # cs) =
     (if c = sep then [] # split_on sep cs
      else (case split_on sep cs of
              [] \<Rightarrow> [[c]]
            | w # ws \<Rightarrow> (c # w) # ws))"

fun those_ints :: "int option list \<Rightarrow> int list option" where
  "those_ints [] = Some []"
| "those_ints (None # xs) = None"
| "those_ints (Some n # xs) = map_option (\<lambda>ns. n # ns) (those_ints xs)"

definition NL :: string where
  "NL = [CHR 0x0A]"

definition RED :: string where
  "RED = CHR 0x1B # ''[91m''"

definition RED_BG :: string where
  "RED_BG = CHR 0x1B # ''[41m''"

definition RESET :: string where
  "RESET = CHR 0x1B # ''[0m''"

definition BOLD :: string where
  "BOLD = CHR 0x1B # ''[1m''"

section \<open>The bot's state\<close>

record config =
  telegram_token :: string
  telegram_chat_id :: string
  monitoring_interval :: int
  traffic_generation_duration :: int
  max_packets_per_second :: int
  default_ports :: "int list"
  log_file :: string

definition DEFAULT_CONFIG :: config where
  "DEFAULT_CONFIG =
     \<lparr>telegram_token = [], telegram_chat_id = [], monitoring_interval = 60,
      traffic_generation_duration = 30, max_packets_per_second = 100,
      default_ports = [80, 443, 22, 3389], log_file = ''bot_activity.log''\<rparr>"

definition config_keys :: "string list" where
  "config_keys = [''telegram_token'', ''telegram_chat_id'', ''monitoring_interval'',
                  ''traffic_generation_duration'', ''max_packets_per_second'',
                  ''default_ports'', ''log_file'']"

text \<open>
  The fields of \<open>CyberSecurityBot\<close>, and two fields for its effects on the outside:
  \<open>activity_log\<close> holds the messages given to \<open>log_activity\<close> and \<open>outbox\<close> the
  messages posted to the Telegram API, both oldest first. The log line's timestamp prefix
  comes from the wall clock and is left out; the append to the log file is taken to
  succeed.
\<close>

record bot =
  running :: bool
  monitoring_active :: bool
  traffic_generation_active :: bool
  current_target :: "string option"
  current_port :: "int option"
  config :: config
  command_history :: "string list"
  activity_log :: "string list"
  outbox :: "string list"

definition init_bot :: "config \<Rightarrow> bot" where
  "init_bot c =
     \<lparr>running = False, monitoring_active = False, traffic_generation_active = False,
      current_target = None, current_port = None, config = c, command_history = [],
      activity_log = [], outbox = []\<rparr>"

definition log_activity :: "string \<Rightarrow> bot \<Rightarrow> bot" where
  "log_activity message b = b\<lparr>activity_log := activity_log b @ [message]\<rparr>"

text \<open>What \<open>requests.post\<close> does is an input: a status code, or an exception.\<close>

datatype http_result = Status int | PostRaises string

definition send_telegram_message :: "http_result \<Rightarrow> string \<Rightarrow> bot \<Rightarrow> bot \<times> bool" where
  "send_telegram_message h message b =
     (if telegram_token (config b) = [] \<or> telegram_chat_id (config b) = [] then
        (log_activity ''Telegram not configured. Message not sent.'' b, False)
      else
        (let b1 = b\<lparr>outbox := outbox b @ [message]\<rparr> in
         case h of
           Status code \<Rightarrow>
             if code = 200 then (b1, True)
             else (log_activity (''Failed to send Telegram message. Status code: '' @ str_int code) b1,
                   False)
         | PostRaises e \<Rightarrow> (log_activity (''Error sending Telegram message: '' @ e) b1, False)))"

fun str_opt :: "string option \<Rightarrow> string" where
  "str_opt None = ''None''"
| "str_opt (Some s) = s"

fun str_int_opt :: "int option \<Rightarrow> string" where
  "str_int_opt None = ''None''"
| "str_int_opt (Some n) = str_int n"

section \<open>Validator\<close>

text \<open>
  \<open>validate_ip\<close> asks \<open>socket.inet_aton\<close>, the C library's parser of IPv4 text, and
  returns whether it accepted. The parser reads numbers in C notation (decimal, octal
  with a leading \<open>0\<close>, hexadecimal with \<open>0x\<close>) separated by dots: one to four of them.
  All but the last are one byte each; the last fills the bytes that remain. Text after
  the last number is accepted when it starts with white space. The Python wrapper
  refuses a string with an embedded NUL by raising \<open>ValueError\<close>, which
  \<open>validate_ip\<close> does not catch.
\<close>

definition is_xdigit :: "char \<Rightarrow> bool" where
  "is_xdigit c =
     (is_digit c \<or> (97 \<le> (of_char c :: nat) \<and> (of_char c :: nat) \<le> 102)
                 \<or> (65 \<le> (of_char c :: nat) \<and> (of_char c :: nat) \<le> 70))"

definition xdigit_val :: "char \<Rightarrow> nat" where
  "xdigit_val c =
     (if is_digit c then of_char c - 48
      else if 97 \<le> (of_char c :: nat) then of_char c - 87
      else of_char c - 55)"

definition c_isspace :: "char \<Rightarrow> bool" where
  "c_isspace c = (c \<in> set [CHR 0x20, CHR 0x09, CHR 0x0A, CHR 0x0B, CHR 0x0C, CHR 0x0D])"

fun scan_digits :: "nat \<Rightarrow> nat \<Rightarrow> string \<Rightarrow> nat \<times> string" where
  "scan_digits base acc [] = (acc, [])"
| "scan_digits base acc (c # cs) =
     (if is_xdigit c \<and> xdigit_val c < base then scan_digits base (acc * base + xdigit_val c) cs
      else (acc, c # cs))"

definition hex_prefix :: "string \<Rightarrow> bool" where
  "hex_prefix s =
     (case s of
        c0 # x # h # rest \<Rightarrow> c0 = CHR ''0'' \<and> (x = CHR ''x'' \<or> x = CHR ''X'') \<and> is_xdigit h
      | _ \<Rightarrow> False)"

text \<open>\<open>strtoul(cp, &endp, 0)\<close> on text that starts with a digit: the value and the rest.\<close>

definition strtoul0 :: "string \<Rightarrow> nat \<times> string" where
  "strtoul0 s =
     (if hex_prefix s then scan_digits 16 0 (drop 2 s)
      else if take 1 s = ''0'' then scan_digits 8 0 s
      else scan_digits 10 0 s)"

definition last_part_max :: "nat \<Rightarrow> nat" where
  "last_part_max stored =
     (if stored = 0 then 0xffffffff else if stored = 1 then 0xffffff
      else if stored = 2 then 0xffff else 0xff)"

text \<open>
  The parser's loop. \<open>room\<close> is the number of dots that may still follow (three at the
  start), \<open>parts\<close> the bytes stored so far. The result is the list of numbers read.
\<close>

fun inet_aton_parts :: "nat \<Rightarrow> nat list \<Rightarrow> string \<Rightarrow> nat list option" where
  "inet_aton_parts room parts s =
     (case s of
        [] \<Rightarrow> None
      | c # _ \<Rightarrow>
          if \<not> is_digit c then None
          else
            (case strtoul0 s of
               (val, rest) \<Rightarrow>
                 if val > 0xffffffff then None
                 else
                   (case rest of
                      [] \<Rightarrow>
                        if val > last_part_max (length parts) then None else Some (parts @ [val])
                    | d # rest' \<Rightarrow>
                        if d = CHR ''.'' then
                          (case room of
                             0 \<Rightarrow> None
                           | Suc r \<Rightarrow>
                               if val > 0xff then None
                               else inet_aton_parts r (parts @ [val]) rest')
                        else if \<not> c_isspace d then None
                        else if val > last_part_max (length parts) then None
                        else Some (parts @ [val]))))"

declare inet_aton_parts.simps [simp del]

definition inet_aton :: "string \<Rightarrow> nat list option" where
  "inet_aton s = inet_aton_parts 3 [] s"

definition validate_ip :: "string \<Rightarrow> exn + bool" where
  "validate_ip ip =
     (if CHR 0x00 \<in> set ip then Inl (ValueError ''embedded null character'')
      else Inr (inet_aton ip \<noteq> None))"

text \<open>
  \<open>validate_port\<close> receives either an integer (from the command dispatcher, which has
  already applied \<open>int\<close>) or a string; \<open>int(port)\<close> is the identity on an integer.
\<close>

datatype port_arg = PInt int | PStr string

fun validate_port :: "port_arg \<Rightarrow> bool" where
  "validate_port (PInt n) = (1 \<le> n \<and> n \<le> 65535)"
| "validate_port (PStr s) =
     (case py_int s of
        None \<Rightarrow> False
      | Some n \<Rightarrow> 1 \<le> n \<and> n \<le> 65535)"




section \<open>Ping\<close>

text \<open>
  What the \<open>ping\<close> subprocess does is an input: its output on exit status 0, its
  output with \<open>CalledProcessError\<close> (caught by \<open>ping_ip\<close>), or any other failure to
  run it, which \<open>ping_ip\<close> lets through.
\<close>

datatype ping_result = PingOutput string | PingCalledProcessError string | PingOSError string

definition ping_ip :: "ping_result \<Rightarrow> string \<Rightarrow> exn + string" where
  "ping_ip pr ip =
     (case validate_ip ip of
        Inl e \<Rightarrow> Inl e
      | Inr ok \<Rightarrow>
          if \<not> ok then Inr (''Invalid IP address: '' @ ip)
          else
            (case pr of
               PingOutput out \<Rightarrow> Inr out
             | PingCalledProcessError out \<Rightarrow> Inr out
             | PingOSError m \<Rightarrow> Inl (OSError m)))"

section \<open>Traffic generation\<close>

text \<open>
  A worker thread is its closure variables, its program counter and the arguments of
  its \<open>time.sleep\<close> calls so far (\<open>naps\<close>, in seconds, oldest first). One call of a step
  function is one pass from a read of the shared flag to the next; the foreground
  commands and the other worker run between steps.
\<close>

datatype traffic_pc = TStart | TLoop | TDone

record traffic_worker =
  tw_ip :: string
  tw_port :: int
  tw_duration :: int
  tw_pps :: int
  tw_start_time :: rat
  tw_packet_count :: int
  tw_pc :: traffic_pc
  tw_naps :: "rat list"

definition truthy :: "int option \<Rightarrow> bool" where
  "truthy v = (case v of None \<Rightarrow> False | Some n \<Rightarrow> n \<noteq> 0)"

text \<open>\<open>random.choice\<close>: \<open>pick\<close> is the random draw.\<close>

definition random_choice :: "nat \<Rightarrow> 'a list \<Rightarrow> exn + 'a" where
  "random_choice pick xs =
     (if xs = [] then Inl (IndexError ''Cannot choose from an empty sequence'')
      else Inr (xs ! (pick mod length xs)))"

definition generate_traffic ::
  "nat \<Rightarrow> http_result \<Rightarrow> string \<Rightarrow> int option \<Rightarrow> int option \<Rightarrow> int option \<Rightarrow> bot
   \<Rightarrow> exn + (bot \<times> string \<times> traffic_worker option)" where
  "generate_traffic pick h ip port duration pps b =
     (case validate_ip ip of
        Inl e \<Rightarrow> Inl e
      | Inr ok \<Rightarrow>
          if \<not> ok then Inr (b, ''Invalid IP address: '' @ ip, None)
          else if truthy port \<and> \<not> validate_port (PInt (the port)) then
            Inr (b, ''Invalid port: '' @ str_int (the port), None)
          else
            (case (if \<not> truthy port then random_choice pick (default_ports (config b))
                   else Inr (the port)) of
               Inl e \<Rightarrow> Inl e
             | Inr port' \<Rightarrow>
                 (let duration' = (if \<not> truthy duration then traffic_generation_duration (config b)
                                   else the duration);
                      pps' = (if \<not> truthy pps then max_packets_per_second (config b) else the pps);
                      b1 = b\<lparr>current_target := Some ip, current_port := Some port',
                              traffic_generation_active := True\<rparr>;
                      message = ''Starting traffic generation to '' @ ip @ '':'' @ str_int port'
                                @ '' for '' @ str_int duration' @ '' seconds at '' @ str_int pps'
                                @ '' packets/sec'';
                      b2 = log_activity message b1;
                      b3 = fst (send_telegram_message h
                                  (''<b>Traffic Generation Started</b>'' @ NL @ message) b2);
                      w = \<lparr>tw_ip = ip, tw_port = port', tw_duration = duration', tw_pps = pps',
                           tw_start_time = 0, tw_packet_count = 0, tw_pc = TStart, tw_naps = []\<rparr>
                  in Inr (b3, ''Started traffic generation to '' @ ip @ '':'' @ str_int port',
                          Some w))))"

text \<open>
  One connection attempt, as the network decides it: an exception before the connection
  is made, an exception from \<open>send\<close> or \<open>close\<close> after it, or no exception. A port
  outside 0..65535 makes \<open>connect\<close> raise before anything reaches the network.
\<close>

datatype attempt = ConnectFails string | SendFails string | Sent

record traffic_env =
  te_now :: rat
  te_attempt :: attempt
  te_http :: http_result

definition traffic_error :: "string \<Rightarrow> bot \<Rightarrow> traffic_worker \<Rightarrow> bot \<times> traffic_worker" where
  "traffic_error m b w =
     (log_activity (''Error generating traffic: '' @ m) b, w\<lparr>tw_naps := tw_naps w @ [1]\<rparr>)"

definition traffic_body :: "attempt \<Rightarrow> bot \<Rightarrow> traffic_worker \<Rightarrow> bot \<times> traffic_worker" where
  "traffic_body a b w =
     (if tw_port w < 0 \<or> 65535 < tw_port w then
        traffic_error ''connect(): port must be 0-65535.'' b w
      else
        (case a of
           ConnectFails m \<Rightarrow> traffic_error m b w
         | SendFails m \<Rightarrow> traffic_error m b (w\<lparr>tw_packet_count := tw_packet_count w + 1\<rparr>)
         | Sent \<Rightarrow>
             (let w1 = w\<lparr>tw_packet_count := tw_packet_count w + 1\<rparr> in
              if tw_pps w = 0 then traffic_error ''division by zero'' b w1
              else if tw_pps w < 0 then traffic_error ''sleep length must be non-negative'' b w1
              else (b, w1\<lparr>tw_naps := tw_naps w1 @ [1 / of_int (tw_pps w)]\<rparr>))))"

definition traffic_exit :: "http_result \<Rightarrow> bot \<Rightarrow> traffic_worker \<Rightarrow> bot \<times> traffic_worker" where
  "traffic_exit h b w =
     (let b1 = b\<lparr>traffic_generation_active := False, current_target := None,
                  current_port := None\<rparr>;
          stats = ''Traffic generation completed. Sent '' @ str_int (tw_packet_count w)
                  @ '' packets to '' @ tw_ip w @ '':'' @ str_int (tw_port w);
          b2 = log_activity stats b1;
          b3 = fst (send_telegram_message h (''<b>Traffic Generation Complete</b>'' @ NL @ stats) b2)
      in (b3, w\<lparr>tw_pc := TDone\<rparr>))"

definition traffic_continues :: "rat \<Rightarrow> bot \<Rightarrow> traffic_worker \<Rightarrow> bool" where
  "traffic_continues now b w =
     (now - tw_start_time w < of_int (tw_duration w) \<and> traffic_generation_active b)"

definition traffic_step :: "traffic_env \<Rightarrow> bot \<Rightarrow> traffic_worker \<Rightarrow> bot \<times> traffic_worker" where
  "traffic_step env b w =
     (case tw_pc w of
        TStart \<Rightarrow> (b, w\<lparr>tw_start_time := te_now env, tw_packet_count := 0, tw_pc := TLoop\<rparr>)
      | TLoop \<Rightarrow>
          if traffic_continues (te_now env) b w then traffic_body (te_attempt env) b w
          else traffic_exit (te_http env) b w
      | TDone \<Rightarrow> (b, w))"

definition stop_traffic :: "http_result \<Rightarrow> bot \<Rightarrow> bot \<times> string" where
  "stop_traffic h b =
     (if traffic_generation_active b then
        (let b1 = b\<lparr>traffic_generation_active := False\<rparr>;
             message = ''Stopped traffic generation to '' @ str_opt (current_target b1) @ '':''
                       @ str_int_opt (current_port b1);
             b2 = log_activity message b1;
             b3 = fst (send_telegram_message h (''<b>Traffic Generation Stopped</b>'' @ NL @ message) b2)
         in (b3, message))
      else (b, ''No active traffic generation to stop''))"

section \<open>Monitoring\<close>

text \<open>
  \<open>MWait k\<close>: inside the interval wait, with \<open>k\<close> values of the \<open>range\<close> still to come.
  \<open>MDead e\<close>: the thread has ended with the uncaught exception \<open>e\<close>.
\<close>

datatype monitor_pc = MLoop | MWait nat | MDone | MDead exn

record monitor_worker =
  mw_ip :: string
  mw_pc :: monitor_pc
  mw_naps :: "rat list"

definition start_monitoring ::
  "http_result \<Rightarrow> string \<Rightarrow> bot \<Rightarrow> exn + (bot \<times> string \<times> monitor_worker option)" where
  "start_monitoring h ip b =
     (case validate_ip ip of
        Inl e \<Rightarrow> Inl e
      | Inr ok \<Rightarrow>
          if \<not> ok then Inr (b, ''Invalid IP address: '' @ ip, None)
          else if monitoring_active b then
            Inr (b, ''Monitoring is already active. Stop current monitoring first.'', None)
          else
            (let b1 = b\<lparr>monitoring_active := True, current_target := Some ip\<rparr>;
                 message = ''Starting monitoring of '' @ ip @ '' with interval ''
                           @ str_int (monitoring_interval (config b1)) @ '' seconds'';
                 b2 = log_activity message b1;
                 b3 = fst (send_telegram_message h (''<b>Monitoring Started</b>'' @ NL @ message) b2)
             in Inr (b3, ''Started monitoring '' @ ip,
                     Some \<lparr>mw_ip = ip, mw_pc = MLoop, mw_naps = []\<rparr>)))"

text \<open>
  One port check, as the network decides it: the return code of \<open>connect_ex\<close>, or an
  exception anywhere in the inner \<open>try\<close>. \<open>port_status\<close> is a dictionary: an
  association list in insertion order, where a second assignment to a key replaces the
  value in place.
\<close>

datatype probe = ConnectEx int | ProbeRaises

definition probe_status :: "int \<Rightarrow> probe \<Rightarrow> string" where
  "probe_status port r =
     (if port < 0 \<or> 65535 < port then ''error''
      else (case r of
              ConnectEx code \<Rightarrow> if code = 0 then ''open'' else ''closed''
            | ProbeRaises \<Rightarrow> ''error''))"

fun dict_set :: "'k \<Rightarrow> 'v \<Rightarrow> ('k \<times> 'v) list \<Rightarrow> ('k \<times> 'v) list" where
  "dict_set k v [] = [(k, v)]"
| "dict_set k v ((k', v') # kvs) =
     (if k = k' then (k, v) # kvs else (k', v') # dict_set k v kvs)"

fun probe_ports :: "(nat \<Rightarrow> probe) \<Rightarrow> nat \<Rightarrow> int list \<Rightarrow> (int \<times> string) list \<Rightarrow> (int \<times> string) list" where
  "probe_ports probes i [] st = st"
| "probe_ports probes i (p # ps) st =
     probe_ports probes (Suc i) ps (dict_set p (probe_status p (probes i)) st)"

definition report_line :: "int \<times> string \<Rightarrow> string" where
  "report_line kv = ''  Port '' @ str_int (fst kv) @ '': '' @ snd kv @ NL"

definition status_report :: "string \<Rightarrow> bool \<Rightarrow> (int \<times> string) list \<Rightarrow> string" where
  "status_report ip online port_status =
     ''Monitoring Report for '' @ ip @ '':'' @ NL
     @ ''Online: '' @ (if online then ''Yes'' else ''No'') @ NL
     @ ''Port Status:'' @ NL
     @ concat (map report_line port_status)"

record monitor_env =
  me_ping :: ping_result
  me_probes :: "nat \<Rightarrow> probe"
  me_http :: http_result

definition monitoring_error :: "exn \<Rightarrow> bot \<Rightarrow> monitor_worker \<Rightarrow> bot \<times> monitor_worker" where
  "monitoring_error e b w =
     (let b1 = log_activity (''Monitoring error: '' @ exn_str e) b;
          n = monitoring_interval (config b1)
      in if n < 0 then (b1, w\<lparr>mw_pc := MDead (ValueError ''sleep length must be non-negative'')\<rparr>)
         else (b1, w\<lparr>mw_naps := mw_naps w @ [of_int n], mw_pc := MLoop\<rparr>))"

definition cycle_port_status :: "monitor_env \<Rightarrow> bot \<Rightarrow> (int \<times> string) list" where
  "cycle_port_status env b = probe_ports (me_probes env) 0 (default_ports (config b)) []"

definition monitoring_cycle :: "monitor_env \<Rightarrow> bot \<Rightarrow> monitor_worker \<Rightarrow> bot \<times> monitor_worker" where
  "monitoring_cycle env b w =
     (case ping_ip (me_ping env) (mw_ip w) of
        Inl e \<Rightarrow> monitoring_error e b w
      | Inr ping_result \<Rightarrow>
          (let online = \<not> contains ''unreachable'' (py_lower ping_result);
               report = status_report (mw_ip w) online (cycle_port_status env b);
               b1 = log_activity report b;
               b2 = fst (send_telegram_message (me_http env)
                           (''<b>Monitoring Update</b>'' @ NL @ report) b1)
           in (b2, w\<lparr>mw_pc := MWait (nat (monitoring_interval (config b2)))\<rparr>)))"

definition monitoring_exit :: "http_result \<Rightarrow> bot \<Rightarrow> monitor_worker \<Rightarrow> bot \<times> monitor_worker" where
  "monitoring_exit h b w =
     (let b1 = b\<lparr>monitoring_active := False, current_target := None\<rparr>;
          message = ''Stopped monitoring of '' @ mw_ip w;
          b2 = log_activity message b1;
          b3 = fst (send_telegram_message h (''<b>Monitoring Stopped</b>'' @ NL @ message) b2)
      in (b3, w\<lparr>mw_pc := MDone\<rparr>))"

definition monitoring_step :: "monitor_env \<Rightarrow> bot \<Rightarrow> monitor_worker \<Rightarrow> bot \<times> monitor_worker" where
  "monitoring_step env b w =
     (case mw_pc w of
        MLoop \<Rightarrow>
          if monitoring_active b then monitoring_cycle env b w
          else monitoring_exit (me_http env) b w
      | MWait k \<Rightarrow>
          (case k of
             0 \<Rightarrow> (b, w\<lparr>mw_pc := MLoop\<rparr>)
           | Suc k' \<Rightarrow>
               if \<not> monitoring_active b then (b, w\<lparr>mw_pc := MLoop\<rparr>)
               else (b, w\<lparr>mw_naps := mw_naps w @ [1], mw_pc := MWait k'\<rparr>))
      | MDone \<Rightarrow> (b, w)
      | MDead e \<Rightarrow> (b, w))"

definition stop_monitoring :: "bot \<Rightarrow> bot \<times> string" where
  "stop_monitoring b =
     (if monitoring_active b then
        (b\<lparr>monitoring_active := False\<rparr>, ''Stopping monitoring of '' @ str_opt (current_target b))
      else (b, ''No active monitoring to stop''))"

section \<open>Configuration and status\<close>

text \<open>
  \<open>set_config\<close> assigns into the one configuration dictionary that every reader of
  \<open>self.config\<close> sees. Writing the file back is taken to succeed.
\<close>

definition config_invalid_value :: "string \<Rightarrow> string" where
  "config_invalid_value key = ''Invalid value for '' @ key @ ''. Could not convert to required type.''"

definition config_updated :: "string \<Rightarrow> string \<Rightarrow> string" where
  "config_updated key shown = ''Configuration updated: '' @ key @ '' = '' @ shown"

definition set_int_key :: "string \<Rightarrow> int \<Rightarrow> config \<Rightarrow> config" where
  "set_int_key key n c =
     (if key = ''monitoring_interval'' then c\<lparr>monitoring_interval := n\<rparr>
      else if key = ''traffic_generation_duration'' then c\<lparr>traffic_generation_duration := n\<rparr>
      else c\<lparr>max_packets_per_second := n\<rparr>)"

definition set_str_key :: "string \<Rightarrow> string \<Rightarrow> config \<Rightarrow> config" where
  "set_str_key key v c =
     (if key = ''telegram_token'' then c\<lparr>telegram_token := v\<rparr>
      else if key = ''telegram_chat_id'' then c\<lparr>telegram_chat_id := v\<rparr>
      else c\<lparr>log_file := v\<rparr>)"

definition set_config :: "string \<Rightarrow> string \<Rightarrow> bot \<Rightarrow> bot \<times> string" where
  "set_config key val b =
     (if key \<notin> set config_keys then (b, ''Invalid configuration key: '' @ key)
      else if key \<in> set [''monitoring_interval'', ''traffic_generation_duration'',
                           ''max_packets_per_second''] then
        (case py_int val of
           None \<Rightarrow> (b, config_invalid_value key)
         | Some n \<Rightarrow> (b\<lparr>config := set_int_key key n (config b)\<rparr>, config_updated key (str_int n)))
      else if key = ''default_ports'' then
        (case those_ints (map py_int (split_on (CHR '','') val)) of
           None \<Rightarrow> (b, config_invalid_value key)
         | Some ps \<Rightarrow>
             (b\<lparr>config := (config b)\<lparr>default_ports := ps\<rparr>\<rparr>, config_updated key (str_int_list ps)))
      else (b\<lparr>config := set_str_key key val (config b)\<rparr>, config_updated key val))"

definition show_status :: "bot \<Rightarrow> string" where
  "show_status b =
     RED_BG @ BOLD @ '' Bot Status '' @ RESET @ NL
     @ RED @ ''Running:'' @ RESET @ '' '' @ str_bool (running b) @ NL
     @ RED @ ''Monitoring:'' @ RESET @ '' '' @ str_bool (monitoring_active b)
     @ (if monitoring_active b then '' (Target: '' @ str_opt (current_target b) @ '')'' @ NL
        else NL)
     @ RED @ ''Traffic Generation:'' @ RESET @ '' '' @ str_bool (traffic_generation_active b)
     @ (if traffic_generation_active b then
          '' (Target: '' @ str_opt (current_target b) @ '':'' @ str_int_opt (current_port b)
          @ '')'' @ NL
        else NL)"

section \<open>Scenarios\<close>

text \<open>
  States of a session in progress, used as concrete inputs: the bot after
  \<open>generate 10.0.0.1 80 30 10\<close> with its worker at the head of the loop, and the bot
  after \<open>monitor 8.8.8.8\<close> with its worker, both from the default configuration; a
  network on which every port accepts, and a host on which \<open>ping\<close> cannot be run.
\<close>

definition traffic_bot :: bot where
  "traffic_bot =
     (init_bot DEFAULT_CONFIG)\<lparr>traffic_generation_active := True,
        current_target := Some ''10.0.0.1'', current_port := Some 80,
        activity_log := [''Starting traffic generation to 10.0.0.1:80 for 30 seconds at 10 packets/sec'',
                         ''Telegram not configured. Message not sent.'']\<rparr>"

definition traffic_w :: traffic_worker where
  "traffic_w =
     \<lparr>tw_ip = ''10.0.0.1'', tw_port = 80, tw_duration = 30, tw_pps = 10, tw_start_time = 0,
      tw_packet_count = 0, tw_pc = TLoop, tw_naps = []\<rparr>"

definition monitor_bot :: bot where
  "monitor_bot =
     (init_bot DEFAULT_CONFIG)\<lparr>monitoring_active := True, current_target := Some ''8.8.8.8'',
        activity_log := [''Starting monitoring of 8.8.8.8 with interval 60 seconds'',
                         ''Telegram not configured. Message not sent.'']\<rparr>"

definition monitor_w :: monitor_worker where
  "monitor_w = \<lparr>mw_ip = ''8.8.8.8'', mw_pc = MLoop, mw_naps = []\<rparr>"

definition all_open :: monitor_env where
  "all_open = \<lparr>me_ping = PingOutput ''4 packets transmitted, 4 received'',
                me_probes = (\<lambda>i. ConnectEx 0), me_http = Status 200\<rparr>"

definition no_ping :: monitor_env where
  "no_ping = \<lparr>me_ping = PingOSError ''No such file or directory'',
               me_probes = (\<lambda>i. ConnectEx 0), me_http = Status 200\<rparr>"

section \<open>Properties of the text functions\<close>



lemma digit_char_eval:
  "digit_char 0 = CHR ''0''" "digit_char (Suc 0) = CHR ''1''" "digit_char 1 = CHR ''1''"
  "digit_char 2 = CHR ''2''" "digit_char 3 = CHR ''3''" "digit_char 4 = CHR ''4''"
  "digit_char 5 = CHR ''5''" "digit_char 6 = CHR ''6''" "digit_char 7 = CHR ''7''"
  "digit_char 8 = CHR ''8''" "digit_char 9 = CHR ''9''"
  by code_simp+

lemmas text_eval =
  py_int_def py_strip_def py_isspace_def unsigned_int_def is_digit_def digit_val_def
  str_int_def str_nat.simps digit_char_eval


















section \<open>Port validation\<close>



section \<open>Effects on the log and the flags\<close>

lemma send_keeps [simp]:
  "running (fst (send_telegram_message h m b)) = running b"
  "monitoring_active (fst (send_telegram_message h m b)) = monitoring_active b"
  "traffic_generation_active (fst (send_telegram_message h m b)) = traffic_generation_active b"
  "current_target (fst (send_telegram_message h m b)) = current_target b"
  "current_port (fst (send_telegram_message h m b)) = current_port b"
  "config (fst (send_telegram_message h m b)) = config b"
  "command_history (fst (send_telegram_message h m b)) = command_history b"
  by (simp_all add: send_telegram_message_def log_activity_def Let_def split: http_result.split)

lemma log_keeps [simp]:
  "running (log_activity m b) = running b"
  "monitoring_active (log_activity m b) = monitoring_active b"
  "traffic_generation_active (log_activity m b) = traffic_generation_active b"
  "current_target (log_activity m b) = current_target b"
  "current_port (log_activity m b) = current_port b"
  "config (log_activity m b) = config b"
  "command_history (log_activity m b) = command_history b"
  "outbox (log_activity m b) = outbox b"
  "activity_log (log_activity m b) = activity_log b @ [m]"
  by (simp_all add: log_activity_def)

lemma send_log_grows: "set (activity_log b) \<subseteq> set (activity_log (fst (send_telegram_message h m b)))"
  by (auto simp: send_telegram_message_def log_activity_def Let_def split: http_result.split)

lemma logged_then_sent:
  "m \<in> set (activity_log (fst (send_telegram_message h m' (log_activity m b))))"
  using send_log_grows [of "log_activity m b" h m'] by auto

lemmas ip_eval =
  validate_ip_def inet_aton_def inet_aton_parts.simps strtoul0_def hex_prefix_def
  is_xdigit_def xdigit_val_def last_part_max_def c_isspace_def

lemmas scenario_defs =
  traffic_bot_def traffic_w_def monitor_bot_def monitor_w_def all_open_def no_ping_def
  init_bot_def DEFAULT_CONFIG_def

lemma scenario_reached:
  "generate_traffic 0 (Status 200) ''10.0.0.1'' (Some 80) (Some 30) (Some 10) (init_bot DEFAULT_CONFIG)
     = Inr (traffic_bot, ''Started traffic generation to 10.0.0.1:80'', Some (traffic_w\<lparr>tw_pc := TStart\<rparr>))"
  "traffic_step \<lparr>te_now = 0, te_attempt = Sent, te_http = Status 200\<rparr> traffic_bot (traffic_w\<lparr>tw_pc := TStart\<rparr>)
     = (traffic_bot, traffic_w)"
  "start_monitoring (Status 200) ''8.8.8.8'' (init_bot DEFAULT_CONFIG)
     = Inr (monitor_bot, ''Started monitoring 8.8.8.8'', Some monitor_w)"
  by (simp_all add: generate_traffic_def start_monitoring_def traffic_step_def scenario_defs ip_eval
        text_eval truthy_def send_telegram_message_def log_activity_def Let_def)

lemmas step_defs =
  traffic_step_def traffic_continues_def traffic_body_def traffic_error_def traffic_exit_def
  monitoring_step_def monitoring_cycle_def monitoring_error_def monitoring_exit_def ping_ip_def

section \<open>Stopping\<close>

text \<open>
  Claim C7. Stopping is idempotent for both kinds of session. When a session is active,
  the stop clears its flag, so that the worker leaves its loop at its next check of the
  flag (a monitoring worker inside its interval wait breaks out of the wait without
  another sleep). When no session is active, the stop returns the fixed "nothing to stop"
  text and the state is unchanged; a second stop is always of that kind.
\<close>

theorem stop_is_idempotent:
  "(traffic_generation_active b \<longrightarrow>
      \<not> traffic_generation_active (fst (stop_traffic h b))
      \<and> (tw_pc w = TLoop \<longrightarrow> tw_pc (snd (traffic_step tenv (fst (stop_traffic h b)) w)) = TDone))
   \<and> (\<not> traffic_generation_active b \<longrightarrow>
        stop_traffic h b = (b, ''No active traffic generation to stop''))
   \<and> stop_traffic h' (fst (stop_traffic h b))
       = (fst (stop_traffic h b), ''No active traffic generation to stop'')
   \<and> (monitoring_active b \<longrightarrow>
        \<not> monitoring_active (fst (stop_monitoring b))
        \<and> (mw_pc m = MLoop \<longrightarrow> mw_pc (snd (monitoring_step menv (fst (stop_monitoring b)) m)) = MDone)
        \<and> (mw_pc m = MWait k \<longrightarrow>
             monitoring_step menv (fst (stop_monitoring b)) m
               = (fst (stop_monitoring b), m\<lparr>mw_pc := MLoop\<rparr>)))
   \<and> (\<not> monitoring_active b \<longrightarrow> stop_monitoring b = (b, ''No active monitoring to stop''))
   \<and> stop_monitoring (fst (stop_monitoring b))
       = (fst (stop_monitoring b), ''No active monitoring to stop'')"
proof -
  have t1: "\<not> traffic_generation_active (fst (stop_traffic h b))"
    by (simp add: stop_traffic_def Let_def)
  have t2: "tw_pc w = TLoop \<Longrightarrow> tw_pc (snd (traffic_step tenv (fst (stop_traffic h b)) w)) = TDone"
    using t1 by (simp add: traffic_step_def traffic_continues_def traffic_exit_def Let_def)
  have t3: "\<not> traffic_generation_active b \<Longrightarrow>
      stop_traffic h b = (b, ''No active traffic generation to stop'')"
    by (simp add: stop_traffic_def)
  have t4: "stop_traffic h' (fst (stop_traffic h b))
       = (fst (stop_traffic h b), ''No active traffic generation to stop'')"
    using t1 by (simp add: stop_traffic_def [of h'])
  have m1: "\<not> monitoring_active (fst (stop_monitoring b))"
    by (simp add: stop_monitoring_def)
  have m2: "mw_pc m = MLoop \<Longrightarrow>
      mw_pc (snd (monitoring_step menv (fst (stop_monitoring b)) m)) = MDone"
    using m1 by (simp add: monitoring_step_def monitoring_exit_def Let_def)
  have m3: "mw_pc m = MWait k \<Longrightarrow>
      monitoring_step menv (fst (stop_monitoring b)) m = (fst (stop_monitoring b), m\<lparr>mw_pc := MLoop\<rparr>)"
    using m1 by (simp add: monitoring_step_def split: nat.split)
  have m4: "\<not> monitoring_active b \<Longrightarrow> stop_monitoring b = (b, ''No active monitoring to stop'')"
    by (simp add: stop_monitoring_def)
  have m5: "stop_monitoring (fst (stop_monitoring b))
       = (fst (stop_monitoring b), ''No active monitoring to stop'')"
    using m1 by (simp add: stop_monitoring_def [of "fst (stop_monitoring b)"])
  show ?thesis
    using t1 t2 t3 t4 m1 m2 m3 m4 m5 by blast
qed


theorem stop_is_idempotent_witness:
  "traffic_generation_active traffic_bot
   \<and> \<not> traffic_generation_active (fst (stop_traffic (Status 200) traffic_bot))
   \<and> tw_pc traffic_w = TLoop
   \<and> tw_pc (snd (traffic_step \<lparr>te_now = 1, te_attempt = Sent, te_http = Status 200\<rparr>
                    (fst (stop_traffic (Status 200) traffic_bot)) traffic_w)) = TDone
   \<and> \<not> traffic_generation_active monitor_bot
   \<and> stop_traffic (Status 200) monitor_bot = (monitor_bot, ''No active traffic generation to stop'')
   \<and> monitoring_active monitor_bot
   \<and> \<not> monitoring_active (fst (stop_monitoring monitor_bot))
   \<and> mw_pc monitor_w = MLoop
   \<and> mw_pc (snd (monitoring_step all_open (fst (stop_monitoring monitor_bot)) monitor_w)) = MDone
   \<and> mw_pc (monitor_w\<lparr>mw_pc := MWait 7\<rparr>) = MWait 7
   \<and> monitoring_step all_open (fst (stop_monitoring monitor_bot)) (monitor_w\<lparr>mw_pc := MWait 7\<rparr>)
       = (fst (stop_monitoring monitor_bot), monitor_w\<lparr>mw_pc := MLoop\<rparr>)
   \<and> \<not> monitoring_active traffic_bot
   \<and> stop_monitoring traffic_bot = (traffic_bot, ''No active monitoring to stop'')"
proof -
  have a: "traffic_generation_active traffic_bot" "tw_pc traffic_w = TLoop"
    "\<not> monitoring_active traffic_bot"
    by (simp_all add: scenario_defs)
  have b: "monitoring_active monitor_bot" "mw_pc monitor_w = MLoop"
    "\<not> traffic_generation_active monitor_bot" "mw_pc (monitor_w\<lparr>mw_pc := MWait 7\<rparr>) = MWait 7"
    by (simp_all add: scenario_defs)
  show ?thesis
    using a b
      stop_is_idempotent [where b = traffic_bot and h = "Status 200" and w = traffic_w
        and tenv = "\<lparr>te_now = 1, te_attempt = Sent, te_http = Status 200\<rparr>"]
      stop_is_idempotent [where b = monitor_bot and h = "Status 200" and m = monitor_w
        and menv = all_open]
      stop_is_idempotent [where b = monitor_bot and m = "monitor_w\<lparr>mw_pc := MWait 7\<rparr>"
        and k = 7 and menv = all_open]
    by simp
qed

section \<open>Starting while active\<close>

text \<open>
  Claim C1. A start issued while a session of the same kind is active is to be refused
  with no change of state. \<open>generate_traffic\<close> has no such check: called on the bot
  whose traffic session to 10.0.0.1:80 is active, it reports a start, replaces the
  target and the port, and hands back a second worker.
\<close>

theorem second_generate_not_rejected:
  "traffic_generation_active traffic_bot
   \<and> (case generate_traffic 0 (Status 200) ''10.0.0.2'' (Some 8080) (Some 5) (Some 1) traffic_bot of
        Inl e \<Rightarrow> False
      | Inr (b', result, spawned) \<Rightarrow>
          result = ''Started traffic generation to 10.0.0.2:8080''
          \<and> current_target b' = Some ''10.0.0.2'' \<and> current_port b' = Some 8080
          \<and> spawned = Some \<lparr>tw_ip = ''10.0.0.2'', tw_port = 8080, tw_duration = 5, tw_pps = 1,
                              tw_start_time = 0, tw_packet_count = 0, tw_pc = TStart, tw_naps = []\<rparr>)"
  by (simp add: generate_traffic_def scenario_defs ip_eval text_eval truthy_def
        send_telegram_message_def log_activity_def Let_def)

text \<open>\<open>start_monitoring\<close> does have the check.\<close>

lemma start_monitoring_conflict:
  "validate_ip ip = Inr True \<Longrightarrow> monitoring_active b \<Longrightarrow>
   start_monitoring h ip b
     = Inr (b, ''Monitoring is already active. Stop current monitoring first.'', None)"
  by (simp add: start_monitoring_def)

section \<open>The wait after a monitoring error\<close>

text \<open>
  Claim C9. Every wait of the monitoring loop is to look at the flag once per second.
  The wait after a failed cycle is one \<open>time.sleep\<close> of the whole interval: with the
  default interval the worker sleeps 60 seconds before it reads the flag again, where
  the wait after a successful cycle sleeps one second at a time.
\<close>

theorem error_wait_is_one_sleep:
  "monitoring_active monitor_bot
   \<and> snd (monitoring_step no_ping monitor_bot monitor_w)
       = \<lparr>mw_ip = ''8.8.8.8'', mw_pc = MLoop, mw_naps = [60]\<rparr>
   \<and> snd (monitoring_step all_open monitor_bot monitor_w)
       = \<lparr>mw_ip = ''8.8.8.8'', mw_pc = MWait 60, mw_naps = []\<rparr>
   \<and> snd (monitoring_step all_open monitor_bot (monitor_w\<lparr>mw_pc := MWait 60\<rparr>))
       = \<lparr>mw_ip = ''8.8.8.8'', mw_pc = MWait 59, mw_naps = [1]\<rparr>"
  by (simp add: monitoring_step_def monitoring_cycle_def monitoring_error_def ping_ip_def
        scenario_defs ip_eval text_eval Let_def)

section \<open>The monitoring report\<close>












section \<open>The shared target\<close>

text \<open>
  Claim C10. Both kinds of session use the one field \<open>current_target\<close>. Starting to
  monitor while traffic is being generated replaces the target that the status shows
  for the traffic session, and a worker of either kind that ends sets the target to
  \<open>None\<close> while the session of the other kind is still active.
\<close>

theorem shared_target_interferes:
  "(validate_ip ip = Inr True \<and> \<not> monitoring_active b \<and> traffic_generation_active b \<longrightarrow>
      (case start_monitoring h ip b of
         Inl e \<Rightarrow> False
       | Inr (b', result, spawned) \<Rightarrow>
           current_target b' = Some ip \<and> current_port b' = current_port b
           \<and> traffic_generation_active b' \<and> monitoring_active b'
           \<and> show_status b'
               = RED_BG @ BOLD @ '' Bot Status '' @ RESET @ NL
                 @ RED @ ''Running:'' @ RESET @ '' '' @ str_bool (running b) @ NL
                 @ RED @ ''Monitoring:'' @ RESET @ '' True (Target: '' @ ip @ '')'' @ NL
                 @ RED @ ''Traffic Generation:'' @ RESET @ '' True (Target: '' @ ip @ '':''
                 @ str_int_opt (current_port b) @ '')'' @ NL))
   \<and> (tw_pc w = TLoop \<and> \<not> traffic_continues (te_now tenv) b w \<and> monitoring_active b \<longrightarrow>
        current_target (fst (traffic_step tenv b w)) = None
        \<and> monitoring_active (fst (traffic_step tenv b w)))
   \<and> (mw_pc m = MLoop \<and> \<not> monitoring_active b \<and> traffic_generation_active b \<longrightarrow>
        current_target (fst (monitoring_step menv b m)) = None
        \<and> traffic_generation_active (fst (monitoring_step menv b m)))"
proof -
  have 1: "validate_ip ip = Inr True \<and> \<not> monitoring_active b \<and> traffic_generation_active b \<longrightarrow>
      (case start_monitoring h ip b of
         Inl e \<Rightarrow> False
       | Inr (b', result, spawned) \<Rightarrow>
           current_target b' = Some ip \<and> current_port b' = current_port b
           \<and> traffic_generation_active b' \<and> monitoring_active b'
           \<and> show_status b'
               = RED_BG @ BOLD @ '' Bot Status '' @ RESET @ NL
                 @ RED @ ''Running:'' @ RESET @ '' '' @ str_bool (running b) @ NL
                 @ RED @ ''Monitoring:'' @ RESET @ '' True (Target: '' @ ip @ '')'' @ NL
                 @ RED @ ''Traffic Generation:'' @ RESET @ '' True (Target: '' @ ip @ '':''
                 @ str_int_opt (current_port b) @ '')'' @ NL)"
    by (simp add: start_monitoring_def show_status_def str_bool_def Let_def)
  have 2: "tw_pc w = TLoop \<and> \<not> traffic_continues (te_now tenv) b w \<and> monitoring_active b \<longrightarrow>
        current_target (fst (traffic_step tenv b w)) = None
        \<and> monitoring_active (fst (traffic_step tenv b w))"
    by (simp add: traffic_step_def traffic_exit_def Let_def)
  have 3: "mw_pc m = MLoop \<and> \<not> monitoring_active b \<and> traffic_generation_active b \<longrightarrow>
        current_target (fst (monitoring_step menv b m)) = None
        \<and> traffic_generation_active (fst (monitoring_step menv b m))"
    by (simp add: monitoring_step_def monitoring_exit_def Let_def)
  show ?thesis using 1 2 3 by blast
qed

theorem shared_target_interferes_witness:
  "validate_ip ''8.8.8.8'' = Inr True \<and> \<not> monitoring_active traffic_bot
   \<and> traffic_generation_active traffic_bot \<and> current_target traffic_bot = Some ''10.0.0.1''
   \<and> (case start_monitoring (Status 200) ''8.8.8.8'' traffic_bot of
         Inl e \<Rightarrow> False
       | Inr (b', result, spawned) \<Rightarrow>
           current_target b' = Some ''8.8.8.8''
           \<and> show_status b'
               = RED_BG @ BOLD @ '' Bot Status '' @ RESET @ NL
                 @ RED @ ''Running:'' @ RESET @ '' False'' @ NL
                 @ RED @ ''Monitoring:'' @ RESET @ '' True (Target: 8.8.8.8)'' @ NL
                 @ RED @ ''Traffic Generation:'' @ RESET @ '' True (Target: 8.8.8.8:80)'' @ NL)
   \<and> tw_pc traffic_w = TLoop
   \<and> \<not> traffic_continues 30 (traffic_bot\<lparr>monitoring_active := True\<rparr>) traffic_w
   \<and> current_target (fst (traffic_step \<lparr>te_now = 30, te_attempt = Sent, te_http = Status 200\<rparr>
                              (traffic_bot\<lparr>monitoring_active := True\<rparr>) traffic_w)) = None
   \<and> monitoring_active (fst (traffic_step \<lparr>te_now = 30, te_attempt = Sent, te_http = Status 200\<rparr>
                              (traffic_bot\<lparr>monitoring_active := True\<rparr>) traffic_w))
   \<and> mw_pc monitor_w = MLoop
   \<and> current_target (fst (monitoring_step all_open traffic_bot monitor_w)) = None
   \<and> traffic_generation_active (fst (monitoring_step all_open traffic_bot monitor_w))"
proof -
  have a: "validate_ip ''8.8.8.8'' = Inr True"
    by (simp add: ip_eval text_eval)
  have b: "\<not> monitoring_active traffic_bot" "traffic_generation_active traffic_bot"
    "current_target traffic_bot = Some ''10.0.0.1''" "current_port traffic_bot = Some 80"
    "running traffic_bot = False"
    "tw_pc traffic_w = TLoop" "mw_pc monitor_w = MLoop"
    "\<not> traffic_continues 30 (traffic_bot\<lparr>monitoring_active := True\<rparr>) traffic_w"
    by (simp_all add: scenario_defs traffic_continues_def)
  show ?thesis
    using a b
      shared_target_interferes [where ip = "''8.8.8.8''" and b = traffic_bot and h = "Status 200"
        and m = monitor_w and menv = all_open]
      shared_target_interferes [where b = "traffic_bot\<lparr>monitoring_active := True\<rparr>" and w = traffic_w
        and tenv = "\<lparr>te_now = 30, te_attempt = Sent, te_http = Status 200\<rparr>"]
    by (simp add: start_monitoring_def show_status_def send_telegram_message_def log_activity_def
          Let_def scenario_defs str_bool_def text_eval)
qed

section \<open>One pass of the traffic loop\<close>




section \<open>Configuration changes during a session\<close>

lemmas config_eval =
  set_config_def config_keys_def set_int_key_def set_str_key_def config_updated_def
  config_invalid_value_def

lemma set_config_keeps [simp]:
  "running (fst (set_config key val b)) = running b"
  "monitoring_active (fst (set_config key val b)) = monitoring_active b"
  "traffic_generation_active (fst (set_config key val b)) = traffic_generation_active b"
  "current_target (fst (set_config key val b)) = current_target b"
  "current_port (fst (set_config key val b)) = current_port b"
  "activity_log (fst (set_config key val b)) = activity_log b"
  by (simp_all add: set_config_def split: option.split)

lemma traffic_step_worker_frame:
  "traffic_generation_active b' = traffic_generation_active b \<Longrightarrow>
   snd (traffic_step tenv b' w) = snd (traffic_step tenv b w)"
  by (simp add: traffic_step_def traffic_continues_def traffic_body_def traffic_error_def
        traffic_exit_def Let_def split: traffic_pc.split attempt.split)

lemma traffic_step_params:
  "tw_ip (snd (traffic_step tenv b w)) = tw_ip w"
  "tw_port (snd (traffic_step tenv b w)) = tw_port w"
  "tw_duration (snd (traffic_step tenv b w)) = tw_duration w"
  "tw_pps (snd (traffic_step tenv b w)) = tw_pps w"
  by (simp_all add: traffic_step_def traffic_body_def traffic_error_def
        traffic_exit_def Let_def split: traffic_pc.split attempt.split)

text \<open>
  Claim C2 says that a running session keeps the interval and the port set it started
  with. The monitoring thread reads both from the configuration in every cycle: after
  \<open>setconfig default_ports 8080\<close> the running monitor reports port 8080 alone, and
  after \<open>setconfig monitoring_interval 5\<close> its next wait is 5 seconds, not 60.
\<close>

theorem setconfig_reaches_running_monitor:
  "monitoring_active monitor_bot
   \<and> monitoring_active (fst (set_config ''default_ports'' ''8080'' monitor_bot))
   \<and> cycle_port_status all_open monitor_bot
       = [(80, ''open''), (443, ''open''), (22, ''open''), (3389, ''open'')]
   \<and> cycle_port_status all_open (fst (set_config ''default_ports'' ''8080'' monitor_bot))
       = [(8080, ''open'')]
   \<and> mw_pc (snd (monitoring_step all_open monitor_bot monitor_w)) = MWait 60
   \<and> mw_pc (snd (monitoring_step all_open
                    (fst (set_config ''monitoring_interval'' ''5'' monitor_bot)) monitor_w)) = MWait 5"
  by (simp add: cycle_port_status_def probe_status_def step_defs config_eval scenario_defs
        ip_eval text_eval Let_def)

text \<open>
  Claim C2, amended. A traffic session's port, duration and rate are fixed when it
  starts, from the configuration of that moment where they are not given, and no step
  of its worker and no \<open>setconfig\<close> changes them or the worker's course. A monitoring
  session takes no snapshot: each cycle uses the interval and the port set that the
  configuration holds when the cycle runs, so a \<open>setconfig\<close> made after the session
  started applies from the running session's next cycle.
\<close>

theorem config_is_read_when_used:
  "tw_port (snd (traffic_step tenv b w)) = tw_port w
   \<and> tw_duration (snd (traffic_step tenv b w)) = tw_duration w
   \<and> tw_pps (snd (traffic_step tenv b w)) = tw_pps w
   \<and> snd (traffic_step tenv (fst (set_config key val b)) w) = snd (traffic_step tenv b w)
   \<and> (validate_ip ip = Inr True \<and> validate_port (PInt p) \<longrightarrow>
        (case generate_traffic pick h ip (Some p) None None b of
           Inl e \<Rightarrow> False
         | Inr (b', result, spawned) \<Rightarrow>
             spawned = Some \<lparr>tw_ip = ip, tw_port = p,
                             tw_duration = traffic_generation_duration (config b),
                             tw_pps = max_packets_per_second (config b),
                             tw_start_time = 0, tw_packet_count = 0, tw_pc = TStart, tw_naps = []\<rparr>))
   \<and> (mw_pc m = MLoop \<and> monitoring_active b \<and> ping_ip (me_ping menv) (mw_ip m) = Inr out
        \<and> py_int val = Some n \<longrightarrow>
        mw_pc (snd (monitoring_step menv (fst (set_config ''monitoring_interval'' val b)) m))
          = MWait (nat n))
   \<and> (mw_pc m = MLoop \<and> monitoring_active b \<and> ping_ip (me_ping menv) (mw_ip m) = Inr out
        \<and> those_ints (map py_int (split_on (CHR '','') val)) = Some ps \<longrightarrow>
        status_report (mw_ip m) (\<not> contains ''unreachable'' (py_lower out))
            (probe_ports (me_probes menv) 0 ps [])
          \<in> set (activity_log (fst (monitoring_step menv
                                     (fst (set_config ''default_ports'' val b)) m))))"
proof -
  have 1: "snd (traffic_step tenv (fst (set_config key val b)) w) = snd (traffic_step tenv b w)"
    by (rule traffic_step_worker_frame) simp
  have 2: "validate_ip ip = Inr True \<and> validate_port (PInt p) \<longrightarrow>
        (case generate_traffic pick h ip (Some p) None None b of
           Inl e \<Rightarrow> False
         | Inr (b', result, spawned) \<Rightarrow>
             spawned = Some \<lparr>tw_ip = ip, tw_port = p,
                             tw_duration = traffic_generation_duration (config b),
                             tw_pps = max_packets_per_second (config b),
                             tw_start_time = 0, tw_packet_count = 0, tw_pc = TStart, tw_naps = []\<rparr>)"
    by (auto simp: generate_traffic_def truthy_def Let_def)
  have 3: "mw_pc m = MLoop \<and> monitoring_active b \<and> ping_ip (me_ping menv) (mw_ip m) = Inr out
        \<and> py_int val = Some n \<longrightarrow>
        mw_pc (snd (monitoring_step menv (fst (set_config ''monitoring_interval'' val b)) m))
          = MWait (nat n)"
    by (simp add: monitoring_step_def monitoring_cycle_def Let_def config_eval)
  have 4: "mw_pc m = MLoop \<and> monitoring_active b \<and> ping_ip (me_ping menv) (mw_ip m) = Inr out
        \<and> those_ints (map py_int (split_on (CHR '','') val)) = Some ps \<longrightarrow>
        status_report (mw_ip m) (\<not> contains ''unreachable'' (py_lower out))
            (probe_ports (me_probes menv) 0 ps [])
          \<in> set (activity_log (fst (monitoring_step menv
                                     (fst (set_config ''default_ports'' val b)) m)))"
    by (simp add: monitoring_step_def monitoring_cycle_def cycle_port_status_def Let_def
          config_eval logged_then_sent)
  show ?thesis
    using 1 2 3 4 traffic_step_params [of tenv b w] by blast
qed

theorem config_is_read_when_used_witness:
  "validate_ip ''10.0.0.9'' = Inr True \<and> validate_port (PInt 443)
   \<and> (case generate_traffic 0 (Status 200) ''10.0.0.9'' (Some 443) None None
              (fst (set_config ''traffic_generation_duration'' ''7'' monitor_bot)) of
         Inl e \<Rightarrow> False
       | Inr (b', result, spawned) \<Rightarrow>
           spawned = Some \<lparr>tw_ip = ''10.0.0.9'', tw_port = 443, tw_duration = 7, tw_pps = 100,
                           tw_start_time = 0, tw_packet_count = 0, tw_pc = TStart, tw_naps = []\<rparr>)
   \<and> mw_pc monitor_w = MLoop \<and> monitoring_active monitor_bot
   \<and> ping_ip (me_ping all_open) (mw_ip monitor_w) = Inr ''4 packets transmitted, 4 received''
   \<and> py_int ''5'' = Some 5
   \<and> mw_pc (snd (monitoring_step all_open
                    (fst (set_config ''monitoring_interval'' ''5'' monitor_bot)) monitor_w))
       = MWait 5
   \<and> those_ints (map py_int (split_on (CHR '','') ''8080,22'')) = Some [8080, 22]
   \<and> status_report ''8.8.8.8'' True [(8080, ''open''), (22, ''open'')]
       \<in> set (activity_log (fst (monitoring_step all_open
                                  (fst (set_config ''default_ports'' ''8080,22'' monitor_bot))
                                  monitor_w)))"
proof -
  have a: "validate_ip ''10.0.0.9'' = Inr True" "validate_port (PInt 443)"
    "mw_pc monitor_w = MLoop" "monitoring_active monitor_bot" "mw_ip monitor_w = ''8.8.8.8''"
    "ping_ip (me_ping all_open) (mw_ip monitor_w) = Inr ''4 packets transmitted, 4 received''"
    "py_int ''5'' = Some 5"
    "those_ints (map py_int (split_on (CHR '','') ''8080,22'')) = Some [8080, 22]"
    "\<not> contains ''unreachable'' (py_lower ''4 packets transmitted, 4 received'')"
    "probe_ports (me_probes all_open) 0 [8080, 22] [] = [(8080, ''open''), (22, ''open'')]"
    "traffic_generation_duration (config (fst (set_config ''traffic_generation_duration'' ''7'' monitor_bot))) = 7"
    "max_packets_per_second (config (fst (set_config ''traffic_generation_duration'' ''7'' monitor_bot))) = 100"
    by (simp_all add: ping_ip_def scenario_defs ip_eval text_eval py_lower_def lower_char_def
          probe_status_def config_eval)
  show ?thesis
    using a
      config_is_read_when_used [where ip = "''10.0.0.9''" and p = 443 and pick = 0
        and h = "Status 200"
        and b = "fst (set_config ''traffic_generation_duration'' ''7'' monitor_bot)"
        and tenv = "\<lparr>te_now = 0, te_attempt = Sent, te_http = Status 200\<rparr>" and w = traffic_w
        and key = "''log_file''" and val = "''5''" and m = monitor_w and menv = all_open
        and out = "''4 packets transmitted, 4 received''" and n = 5 and ps = "[5]"]
      config_is_read_when_used [where ip = "''10.0.0.9''" and p = 443 and pick = 0
        and h = "Status 200" and b = monitor_bot
        and tenv = "\<lparr>te_now = 0, te_attempt = Sent, te_http = Status 200\<rparr>" and w = traffic_w
        and key = "''log_file''" and val = "''5''" and m = monitor_w and menv = all_open
        and out = "''4 packets transmitted, 4 received''" and n = 5 and ps = "[5]"]
      config_is_read_when_used [where ip = "''10.0.0.9''" and p = 443 and pick = 0
        and h = "Status 200" and b = monitor_bot
        and tenv = "\<lparr>te_now = 0, te_attempt = Sent, te_http = Status 200\<rparr>" and w = traffic_w
        and key = "''log_file''" and val = "''8080,22''" and m = monitor_w and menv = all_open
        and out = "''4 packets transmitted, 4 received''" and n = 5 and ps = "[8080, 22]"]
    by (simp add: generate_traffic_def truthy_def send_telegram_message_def log_activity_def
          Let_def config_eval scenario_defs text_eval)
qed

section \<open>Leaving the loops\<close>





section \<open>Address validation\<close>
























end
